theory Spec2Isabelle
  imports Main "HOL-Library.Sublist"
begin

section \<open>The model catalogue hook of the front end\<close>

text \<open>
  The development embeds \<^verbatim>\<open>src/frontend/lib/hooks/use-available-models.tsx\<close>:
  the per-connection resolver \<^verbatim>\<open>fetchModelsByProvider\<close> and the effect of the hook
  \<^verbatim>\<open>useAvailableModels\<close>. Promises are modelled by their settled value: a rejection or
  a thrown exception is \<open>Inl\<close> of an error, a fulfilled promise is \<open>Inr\<close> of its value.
  The network is a parameter, and every call returns the list of the GET requests it
  issued beside its result.
\<close>

subsection \<open>Data\<close>

text \<open>
  Modelled from the spec: the types \<^verbatim>\<open>Connection\<close> and \<^verbatim>\<open>Model\<close> are imported from
  \<^verbatim>\<open>@/lib/types\<close>, which is not among the sources. The spec gives a Connection a stable
  identifier, a provider type tag and a provider-specific configuration payload (a base
  URL for self-hosted providers), and a Model a composite identifier, a display name and
  a back-reference to its owning Connection. The fields below are the ones the hook
  reads and writes: \<^verbatim>\<open>connection.id\<close>, \<^verbatim>\<open>connection.type\<close>, \<^verbatim>\<open>connection.data.url\<close>,
  \<^verbatim>\<open>model.id\<close>, \<^verbatim>\<open>model.connection\<close>, \<^verbatim>\<open>model.name\<close>. A field that may be missing
  (\<^verbatim>\<open>undefined\<close>) is an option.
\<close>

record connection_data =
  url :: "string option"

record connection =
  conn_id :: string
  conn_type :: string
  conn_data :: "connection_data option"

record model =
  model_id :: string
  model_connection :: connection
  model_name :: "string option"

text \<open>
  A parsed JSON value. A number is kept as the decimal text JavaScript prints for it
  (floating point is not modelled); an object lists its members in the order of the JSON
  text.
\<close>

datatype json =
  JNull
  | JBool bool
  | JNum string
  | JStr string
  | JArr "json list"
  | JObj "(string \<times> json) list"

text \<open>
  The failures of the hook: \<^verbatim>\<open>fetch\<close> rejects (the endpoint is unreachable),
  \<^verbatim>\<open>response.json()\<close> rejects (the body is not JSON), or the code reads a property of
  \<^verbatim>\<open>undefined\<close> or \<^verbatim>\<open>null\<close>, or calls something that is not a function.
\<close>

datatype js_error = FetchRejected | BodyRejected | TypeError

text \<open>
  The network, as the hook sees it: what a GET of a URL gives. \<open>None\<close>: the request
  fails; \<open>Some None\<close>: a response whose body is not JSON; \<open>Some (Some v)\<close>: a response
  whose body parses to \<open>v\<close>.
\<close>

type_synonym network = "string \<Rightarrow> json option option"

text \<open>
  The settings collaborator (\<^verbatim>\<open>useSettings\<close>, not among the sources): the hook reads
  \<^verbatim>\<open>settings?.data?.general?.connections\<close>, and each link of the chain may be
  missing.
\<close>

record settings_general =
  general_connections :: "connection list option"

record settings_data =
  data_general :: "settings_general option"

record settings =
  settings_data :: "settings_data option"

subsection \<open>JavaScript primitives the hook uses\<close>

text \<open>
  \<^verbatim>\<open>v[k]\<close> on a parsed JSON value: reading a property of \<^verbatim>\<open>null\<close> or \<^verbatim>\<open>undefined\<close>
  throws; an object gives its member (the last one of that key, as \<^verbatim>\<open>JSON.parse\<close>
  keeps it) or \<^verbatim>\<open>undefined\<close>; every other value has no such property. This is
  the read of the two keys the hook reads, \<^verbatim>\<open>models\<close> and \<^verbatim>\<open>name\<close>, which no
  prototype of a parsed value defines.
\<close>

fun get_prop :: "json option \<Rightarrow> string \<Rightarrow> js_error + json option" where
  "get_prop None k = Inl TypeError"
| "get_prop (Some JNull) k = Inl TypeError"
| "get_prop (Some (JObj kvs)) k = Inr (map_of (rev kvs) k)"
| "get_prop (Some v) k = Inr None"

fun join :: "string \<Rightarrow> string list \<Rightarrow> string" where
  "join sep [] = []"
| "join sep [x] = x"
| "join sep (x # y # ys) = x @ sep @ join sep (y # ys)"

text \<open>
  The string a value becomes under \<^verbatim>\<open>+\<close> with a string. An object is converted by
  its \<^verbatim>\<open>toString\<close>: the inherited one gives \<^verbatim>\<open>[object Object]\<close>, but a member of
  the object named \<^verbatim>\<open>toString\<close> hides it, and no parsed JSON value is callable, so the
  conversion throws. (The inherited \<^verbatim>\<open>valueOf\<close> returns the object itself and a member
  named \<^verbatim>\<open>valueOf\<close> is not callable, so neither gives a primitive.) An array joins the
  strings of its elements with commas, a \<^verbatim>\<open>null\<close> element giving the empty string; the
  first element whose conversion throws ends the call.
\<close>

fun to_string :: "json \<Rightarrow> js_error + string"
  and element_strings :: "json list \<Rightarrow> js_error + string list" where
  "to_string JNull = Inr ''null''"
| "to_string (JBool b) = Inr (if b then ''true'' else ''false'')"
| "to_string (JNum r) = Inr r"
| "to_string (JStr s) = Inr s"
| "to_string (JArr xs) =
     (case element_strings xs of Inl e \<Rightarrow> Inl e | Inr ss \<Rightarrow> Inr (join '','' ss))"
| "to_string (JObj kvs) =
     (case map_of (rev kvs) ''toString'' of
        None \<Rightarrow> Inr ''[object Object]''
      | Some v \<Rightarrow> Inl TypeError)"
| "element_strings [] = Inr []"
| "element_strings (x # xs) =
     (case (if x = JNull then Inr [] else to_string x) of
        Inl e \<Rightarrow> Inl e
      | Inr s \<Rightarrow>
          (case element_strings xs of Inl e \<Rightarrow> Inl e | Inr ss \<Rightarrow> Inr (s # ss)))"

definition plus_string :: "string \<Rightarrow> json option \<Rightarrow> js_error + string" where
  "plus_string s v =
     (case v of
        None \<Rightarrow> Inr (s @ ''undefined'')
      | Some j \<Rightarrow> (case to_string j of Inl e \<Rightarrow> Inl e | Inr t \<Rightarrow> Inr (s @ t)))"

text \<open>
  \<^verbatim>\<open>records.map(f)\<close>: only an array has a callable \<^verbatim>\<open>map\<close>; the callback runs on the
  elements in order and the first exception it throws ends the call.
\<close>

fun map_throwing :: "('a \<Rightarrow> js_error + 'b) \<Rightarrow> 'a list \<Rightarrow> js_error + 'b list" where
  "map_throwing f [] = Inr []"
| "map_throwing f (x # xs) =
     (case f x of
        Inl e \<Rightarrow> Inl e
      | Inr y \<Rightarrow> (case map_throwing f xs of Inl e \<Rightarrow> Inl e | Inr ys \<Rightarrow> Inr (y # ys)))"

fun array_map :: "(json \<Rightarrow> js_error + 'b) \<Rightarrow> json option \<Rightarrow> js_error + 'b list" where
  "array_map f (Some (JArr xs)) = map_throwing f xs"
| "array_map f v = Inl TypeError"

text \<open>
  \<^verbatim>\<open>s.split(sep, limit)\<close> for a one-character separator: the pieces between the
  separators, cut to the first \<open>limit\<close> pieces; and \<^verbatim>\<open>xs[i]\<close>, which is
  \<^verbatim>\<open>undefined\<close> out of range.
\<close>

fun split_char :: "char \<Rightarrow> string \<Rightarrow> string list" where
  "split_char sep [] = [[]]"
| "split_char sep (x # xs) =
     (if x = sep then [] # split_char sep xs
      else (case split_char sep xs of
              [] \<Rightarrow> [[x]]
            | p # ps \<Rightarrow> (x # p) # ps))"

definition split_limit :: "char \<Rightarrow> nat \<Rightarrow> string \<Rightarrow> string list" where
  "split_limit sep limit s = take limit (split_char sep s)"

definition index :: "'a list \<Rightarrow> nat \<Rightarrow> 'a option" where
  "index xs i = (if i < length xs then Some (xs ! i) else None)"

subsection \<open>Per-connection resolution\<close>

text \<open>
  \<^verbatim>\<open>fetchModelsByProvider\<close> is the asynchronous arrow function of lines 8 to 34, which
  the source hands to React's \<^verbatim>\<open>cache\<close>. The definition is one run of that function:
  its settled value and the GET requests it issued. The memo table of \<^verbatim>\<open>cache\<close> belongs
  to the React library and is not modelled.
\<close>

definition static_model :: "connection \<Rightarrow> string \<Rightarrow> model" where
  "static_model connection s =
     \<lparr>model_id = conn_id connection @ s, model_connection = connection,
      model_name = None\<rparr>"

definition ollama_model :: "connection \<Rightarrow> json \<Rightarrow> js_error + model" where
  "ollama_model connection m =
     (case get_prop (Some m) ''name'' of
        Inl e \<Rightarrow> Inl e
      | Inr n \<Rightarrow>
          (case plus_string (conn_id connection @ ''/'') n of
             Inl e \<Rightarrow> Inl e
           | Inr i \<Rightarrow>
               Inr \<lparr>model_id = i, model_connection = connection, model_name = None\<rparr>))"

definition tags_url :: "connection_data \<Rightarrow> string" where
  "tags_url d = (case url d of None \<Rightarrow> ''undefined'' | Some u \<Rightarrow> u) @ ''/api/tags''"

definition fetchModelsByProvider ::
  "network \<Rightarrow> connection \<Rightarrow> (js_error + model list) \<times> string list" where
  "fetchModelsByProvider net connection =
     (if conn_type connection = ''openai'' then
        (Inr [static_model connection ''/gpt-3.5-turbo-0125'',
              static_model connection ''/gpt-4-turbo'',
              static_model connection ''/gpt-3.5-turbo'',
              static_model connection ''/gpt-4o-mini''], [])
      else if conn_type connection = ''groq'' then
        (Inr [static_model connection ''/llama3-8b-8192'',
              static_model connection ''/llama3-70b-8192'',
              static_model connection ''/mixtral-8x7b-32768'',
              static_model connection ''/gemma-7b-it''], [])
      else if conn_type connection = ''ollama'' then
        (case conn_data connection of
           None \<Rightarrow> (Inl TypeError, [])
         | Some d \<Rightarrow>
             ((case net (tags_url d) of
                 None \<Rightarrow> Inl FetchRejected
               | Some None \<Rightarrow> Inl BodyRejected
               | Some (Some body) \<Rightarrow>
                   (case get_prop (Some body) ''models'' of
                      Inl e \<Rightarrow> Inl e
                    | Inr records \<Rightarrow> array_map (ollama_model connection) records)),
              [tags_url d]))
      else (Inr [], []))"

subsection \<open>The hook\<close>

text \<open>
  \<^verbatim>\<open>settings?.data?.general?.connections || []\<close>.
\<close>

definition configured_connections :: "settings option \<Rightarrow> connection list" where
  "configured_connections s =
     (case s of
        None \<Rightarrow> []
      | Some st \<Rightarrow>
          (case settings_data st of
             None \<Rightarrow> []
           | Some d \<Rightarrow>
               (case data_general d of
                  None \<Rightarrow> []
                | Some g \<Rightarrow>
                    (case general_connections g of None \<Rightarrow> [] | Some cs \<Rightarrow> cs))))"

text \<open>
  The callback of \<^verbatim>\<open>connections.map\<close> (lines 47 to 52): it awaits the resolver and
  gives every record its \<^verbatim>\<open>name\<close>, \<^verbatim>\<open>record.id.split('/', 2)[1]\<close>.
\<close>

definition with_name :: "model \<Rightarrow> model" where
  "with_name record = record\<lparr>model_name := index (split_limit CHR ''/'' 2 (model_id record)) 1\<rparr>"

definition resolve_connection ::
  "network \<Rightarrow> connection \<Rightarrow> (js_error + model list) \<times> string list" where
  "resolve_connection net connection =
     (case fetchModelsByProvider net connection of
        (Inl e, reqs) \<Rightarrow> (Inl e, reqs)
      | (Inr records, reqs) \<Rightarrow> (Inr (map with_name records), reqs))"

text \<open>
  Time is logical: the pass starts at instant 0, every promise settles at some instant,
  and what awaits a promise goes on at the instant the promise settles.

  \<^verbatim>\<open>Promise.all\<close> over promises given by the instant and the outcome of each. It is
  rejected as soon as one of them is: at the instant of the earliest rejection and with
  its reason (of two promises rejected at the same instant the one earlier in the list
  is met first, as the reactions are registered in list order). When none is rejected
  it is fulfilled once all are, at the latest of their instants (at instant 0 for no
  promise), with their values in list order.
\<close>

fun earliest_rejection ::
  "(nat \<times> 'e) option \<Rightarrow> (nat \<times> ('e + 'a)) list \<Rightarrow> (nat \<times> 'e) option" where
  "earliest_rejection best [] = best"
| "earliest_rejection best ((t, Inr v) # ps) = earliest_rejection best ps"
| "earliest_rejection best ((t, Inl e) # ps) =
     earliest_rejection
       (case best of
          None \<Rightarrow> Some (t, e)
        | Some (t0, e0) \<Rightarrow> if t < t0 then Some (t, e) else Some (t0, e0))
       ps"

definition fulfilments :: "('e + 'a) list \<Rightarrow> 'a list" where
  "fulfilments rs = concat (map (\<lambda>r. case r of Inl e \<Rightarrow> [] | Inr v \<Rightarrow> [v]) rs)"

definition promise_all :: "(nat \<times> ('e + 'a)) list \<Rightarrow> nat \<times> ('e + 'a list)" where
  "promise_all ps =
     (case earliest_rejection None ps of
        Some (t, e) \<Rightarrow> (t, Inl e)
      | None \<Rightarrow> (fold max (map fst ps) 0, Inr (fulfilments (map snd ps))))"

text \<open>
  One run of \<^verbatim>\<open>fetchAvailableModels\<close> (lines 42 to 59), the body of the effect. The
  environment of the run is given per position \<open>i\<close> in the connection list: \<open>net i\<close> is
  what the network answers to the request of the \<open>i\<close>-th connection, \<open>instant i\<close> the
  instant at which the promise of the \<open>i\<close>-th callback settles. Both are arbitrary:
  the model relates neither the answers nor the instants of different positions.

  Of the result, \<open>availableModels\<close> is the value the run hands to
  \<^verbatim>\<open>setAvailableModels\<close>, \<open>console_error\<close> the error it hands to \<^verbatim>\<open>console.error\<close>
  (\<open>None\<close> when it logs nothing), \<open>requested\<close> the GET requests issued, and \<open>completed\<close>
  the instant of the call of \<^verbatim>\<open>setAvailableModels\<close>, which ends the run. Every request
  is issued while \<^verbatim>\<open>connections.map\<close> runs, before any promise settles, so the requests
  of all the connections are issued, in the order of the connections, whatever fails
  later.
\<close>

record pass =
  availableModels :: "model list"
  console_error :: "js_error option"
  requested :: "string list"
  completed :: nat

definition fetchAvailableModels ::
  "(nat \<Rightarrow> nat) \<Rightarrow> (nat \<Rightarrow> network) \<Rightarrow> settings option \<Rightarrow> pass" where
  "fetchAvailableModels instant net s =
     (let connections = configured_connections s;
          positions = [0..<length connections];
          reqs = concat (map (\<lambda>i. snd (resolve_connection (net i) (connections ! i)))
                          positions);
          promises = map (\<lambda>i. (instant i,
                                 fst (resolve_connection (net i) (connections ! i))))
                       positions
      in case promise_all promises of
           (t, Inr models) \<Rightarrow>
             \<lparr>availableModels = concat models, console_error = None, requested = reqs,
              completed = t\<rparr>
         | (t, Inl error) \<Rightarrow>
             \<lparr>availableModels = [], console_error = Some error, requested = reqs,
              completed = t\<rparr>)"

text \<open>
  What \<^verbatim>\<open>useAvailableModels\<close> returns once the pass has finished: the state the pass
  set. (Before that it returns the initial state, the empty list.)
\<close>

definition useAvailableModels ::
  "(nat \<Rightarrow> nat) \<Rightarrow> (nat \<Rightarrow> network) \<Rightarrow> settings option \<Rightarrow> model list" where
  "useAvailableModels instant net s = availableModels (fetchAvailableModels instant net s)"

section \<open>Fixed catalogues\<close>

text \<open>
  C1. A connection of type \<^verbatim>\<open>openai\<close> or \<^verbatim>\<open>groq\<close> resolves to the four hardcoded models
  of its type, in the listed order; the id of each is the connection id, then \<^verbatim>\<open>/\<close>,
  then the model name; each refers back to the connection; and no request is issued.
\<close>

theorem fixed_catalog_static_list:
  "(conn_type c = ''openai'' \<longrightarrow>
      fetchModelsByProvider net c =
        (Inr (map (\<lambda>n. \<lparr>model_id = conn_id c @ ''/'' @ n, model_connection = c,
                        model_name = None\<rparr>)
               [''gpt-3.5-turbo-0125'', ''gpt-4-turbo'', ''gpt-3.5-turbo'', ''gpt-4o-mini'']),
         [])) \<and>
   (conn_type c = ''groq'' \<longrightarrow>
      fetchModelsByProvider net c =
        (Inr (map (\<lambda>n. \<lparr>model_id = conn_id c @ ''/'' @ n, model_connection = c,
                        model_name = None\<rparr>)
               [''llama3-8b-8192'', ''llama3-70b-8192'', ''mixtral-8x7b-32768'',
                ''gemma-7b-it'']),
         []))"
  by (simp add: fetchModelsByProvider_def static_model_def)

theorem fixed_catalog_static_list_witness:
  "fetchModelsByProvider (\<lambda>u. None) \<lparr>conn_id = ''c1'', conn_type = ''openai'', conn_data = None\<rparr> =
     (Inr [\<lparr>model_id = ''c1/gpt-3.5-turbo-0125'',
            model_connection = \<lparr>conn_id = ''c1'', conn_type = ''openai'', conn_data = None\<rparr>,
            model_name = None\<rparr>,
           \<lparr>model_id = ''c1/gpt-4-turbo'',
            model_connection = \<lparr>conn_id = ''c1'', conn_type = ''openai'', conn_data = None\<rparr>,
            model_name = None\<rparr>,
           \<lparr>model_id = ''c1/gpt-3.5-turbo'',
            model_connection = \<lparr>conn_id = ''c1'', conn_type = ''openai'', conn_data = None\<rparr>,
            model_name = None\<rparr>,
           \<lparr>model_id = ''c1/gpt-4o-mini'',
            model_connection = \<lparr>conn_id = ''c1'', conn_type = ''openai'', conn_data = None\<rparr>,
            model_name = None\<rparr>], []) \<and>
   fetchModelsByProvider (\<lambda>u. None) \<lparr>conn_id = ''g'', conn_type = ''groq'', conn_data = None\<rparr> =
     (Inr [\<lparr>model_id = ''g/llama3-8b-8192'',
            model_connection = \<lparr>conn_id = ''g'', conn_type = ''groq'', conn_data = None\<rparr>,
            model_name = None\<rparr>,
           \<lparr>model_id = ''g/llama3-70b-8192'',
            model_connection = \<lparr>conn_id = ''g'', conn_type = ''groq'', conn_data = None\<rparr>,
            model_name = None\<rparr>,
           \<lparr>model_id = ''g/mixtral-8x7b-32768'',
            model_connection = \<lparr>conn_id = ''g'', conn_type = ''groq'', conn_data = None\<rparr>,
            model_name = None\<rparr>,
           \<lparr>model_id = ''g/gemma-7b-it'',
            model_connection = \<lparr>conn_id = ''g'', conn_type = ''groq'', conn_data = None\<rparr>,
            model_name = None\<rparr>], [])"
  using fixed_catalog_static_list
          [of "\<lparr>conn_id = ''c1'', conn_type = ''openai'', conn_data = None\<rparr>" "\<lambda>u. None"]
        fixed_catalog_static_list
          [of "\<lparr>conn_id = ''g'', conn_type = ''groq'', conn_data = None\<rparr>" "\<lambda>u. None"]
  by simp

section \<open>Dynamic catalogues\<close>

text \<open>
  C2. An \<^verbatim>\<open>ollama\<close> connection with URL \<open>u\<close>, whose endpoint \<open>u\<close>\<^verbatim>\<open>/api/tags\<close> answers with
  the JSON body \<^verbatim>\<open>{"models":[{"name":"a"},{"name":"b"}]}\<close>, resolves to exactly two models,
  with ids the connection id followed by \<^verbatim>\<open>/a\<close> and by \<^verbatim>\<open>/b\<close>, in that order; the one
  request issued is the GET of that endpoint.
\<close>

theorem ollama_two_models:
  assumes "conn_type c = ''ollama''"
    and "conn_data c = Some d"
    and "url d = Some u"
    and "net (u @ ''/api/tags'') =
           Some (Some (JObj [(''models'', JArr [JObj [(''name'', JStr ''a'')],
                                                 JObj [(''name'', JStr ''b'')]])]))"
  shows "fetchModelsByProvider net c =
           (Inr [\<lparr>model_id = conn_id c @ ''/a'', model_connection = c, model_name = None\<rparr>,
                 \<lparr>model_id = conn_id c @ ''/b'', model_connection = c, model_name = None\<rparr>],
            [u @ ''/api/tags''])"
  using assms
  by (simp add: fetchModelsByProvider_def tags_url_def ollama_model_def plus_string_def)

theorem ollama_two_models_witness:
  "fetchModelsByProvider
     (\<lambda>u. if u = ''http://localhost:11434/api/tags''
          then Some (Some (JObj [(''models'', JArr [JObj [(''name'', JStr ''a'')],
                                                     JObj [(''name'', JStr ''b'')]])]))
          else None)
     \<lparr>conn_id = ''c7'', conn_type = ''ollama'',
      conn_data = Some \<lparr>url = Some ''http://localhost:11434''\<rparr>\<rparr> =
   (Inr [\<lparr>model_id = ''c7/a'',
          model_connection = \<lparr>conn_id = ''c7'', conn_type = ''ollama'',
                              conn_data = Some \<lparr>url = Some ''http://localhost:11434''\<rparr>\<rparr>,
          model_name = None\<rparr>,
         \<lparr>model_id = ''c7/b'',
          model_connection = \<lparr>conn_id = ''c7'', conn_type = ''ollama'',
                              conn_data = Some \<lparr>url = Some ''http://localhost:11434''\<rparr>\<rparr>,
          model_name = None\<rparr>],
    [''http://localhost:11434/api/tags''])"
  using ollama_two_models
          [of "\<lparr>conn_id = ''c7'', conn_type = ''ollama'',
                conn_data = Some \<lparr>url = Some ''http://localhost:11434''\<rparr>\<rparr>"
              "\<lparr>url = Some ''http://localhost:11434''\<rparr>"
              "''http://localhost:11434''"
              "\<lambda>u. if u = ''http://localhost:11434/api/tags''
                   then Some (Some (JObj [(''models'', JArr [JObj [(''name'', JStr ''a'')],
                                                              JObj [(''name'', JStr ''b'')]])]))
                   else None"]
  by simp

section \<open>Unrecognised provider types\<close>

text \<open>
  C6. A connection whose type is none of \<^verbatim>\<open>openai\<close>, \<^verbatim>\<open>groq\<close> and \<^verbatim>\<open>ollama\<close> resolves
  to the empty list: the promise is fulfilled, not rejected, and no request is issued.
\<close>

theorem unrecognised_type_empty:
  assumes "conn_type c \<notin> {''openai'', ''groq'', ''ollama''}"
  shows "fetchModelsByProvider net c = (Inr [], [])"
  using assms by (simp add: fetchModelsByProvider_def)

theorem unrecognised_type_empty_witness:
  "''anthropic'' \<notin> {''openai'', ''groq'', ''ollama''} \<and>
   fetchModelsByProvider (\<lambda>u. Some (Some JNull))
     \<lparr>conn_id = ''c3'', conn_type = ''anthropic'', conn_data = None\<rparr> = (Inr [], [])"
  using unrecognised_type_empty
          [of "\<lparr>conn_id = ''c3'', conn_type = ''anthropic'', conn_data = None\<rparr>"
              "\<lambda>u. Some (Some JNull)"]
  by simp

section \<open>The pass over all the connections\<close>

lemma earliest_rejection_kept:
  "best \<noteq> None \<Longrightarrow> earliest_rejection best ps \<noteq> None"
proof (induction ps arbitrary: best)
  case Nil
  then show ?case by simp
next
  case (Cons p ps)
  obtain t r where p: "p = (t, r)" by (cases p)
  show ?case
  proof (cases r)
    case (Inl e)
    have "(case best of None \<Rightarrow> Some (t, e)
           | Some (t0, e0) \<Rightarrow> if t < t0 then Some (t, e) else Some (t0, e0)) \<noteq> None"
      by (simp split: option.splits prod.splits)
    from Cons.IH [OF this] p Inl show ?thesis by simp
  next
    case (Inr v)
    with Cons p show ?thesis by simp
  qed
qed

lemma earliest_rejection_found:
  "(t, Inl e) \<in> set ps \<Longrightarrow> earliest_rejection best ps \<noteq> None"
proof (induction ps arbitrary: best)
  case Nil
  then show ?case by simp
next
  case (Cons p ps)
  obtain t' r where p: "p = (t', r)" by (cases p)
  show ?case
  proof (cases r)
    case (Inl e')
    have "(case best of None \<Rightarrow> Some (t', e')
           | Some (t0, e0) \<Rightarrow> if t' < t0 then Some (t', e') else Some (t0, e0)) \<noteq> None"
      by (simp split: option.splits prod.splits)
    from earliest_rejection_kept [OF this] p Inl show ?thesis by simp
  next
    case (Inr v)
    with Cons p show ?thesis by auto
  qed
qed

lemma earliest_rejection_source:
  "earliest_rejection best ps = Some (t, e) \<Longrightarrow> best = Some (t, e) \<or> (t, Inl e) \<in> set ps"
proof (induction ps arbitrary: best)
  case Nil
  then show ?case by simp
next
  case (Cons p ps)
  obtain t' r where p: "p = (t', r)" by (cases p)
  show ?case
  proof (cases r)
    case (Inl e')
    with Cons.prems p
    have "earliest_rejection
            (case best of None \<Rightarrow> Some (t', e')
             | Some (t0, e0) \<Rightarrow> if t' < t0 then Some (t', e') else Some (t0, e0)) ps =
          Some (t, e)"
      by simp
    from Cons.IH [OF this] p Inl show ?thesis
      by (auto split: option.splits prod.splits if_splits)
  next
    case (Inr v)
    with Cons p show ?thesis by auto
  qed
qed

lemma earliest_rejection_least:
  "earliest_rejection best ps = Some (t, e) \<Longrightarrow>
     (\<forall>t0 e0. best = Some (t0, e0) \<longrightarrow> t \<le> t0) \<and>
     (\<forall>t' e'. (t', Inl e') \<in> set ps \<longrightarrow> t \<le> t')"
proof (induction ps arbitrary: best)
  case Nil
  then show ?case by simp
next
  case (Cons p ps)
  obtain t' r where p: "p = (t', r)" by (cases p)
  show ?case
  proof (cases r)
    case (Inl e')
    with Cons.prems p
    have "earliest_rejection
            (case best of None \<Rightarrow> Some (t', e')
             | Some (t0, e0) \<Rightarrow> if t' < t0 then Some (t', e') else Some (t0, e0)) ps =
          Some (t, e)"
      by simp
    from Cons.IH [OF this] p Inl show ?thesis
      by (cases best) (auto split: if_splits)
  next
    case (Inr v)
    with Cons p show ?thesis by auto
  qed
qed

lemma fold_max_bounds:
  "(a::nat) \<le> fold max ts a \<and> (\<forall>t \<in> set ts. t \<le> fold max ts a)"
proof (induction ts arbitrary: a)
  case Nil
  then show ?case by simp
next
  case (Cons t ts)
  from Cons.IH [of "max t a"] show ?case by auto
qed

lemma fst_resolve_connection:
  "fst (resolve_connection net c) =
     (case fst (fetchModelsByProvider net c) of
        Inl e \<Rightarrow> Inl e
      | Inr records \<Rightarrow> Inr (map with_name records))"
  by (cases "fetchModelsByProvider net c") (simp add: resolve_connection_def split: sum.splits)

lemma snd_resolve_connection:
  "snd (resolve_connection net c) = snd (fetchModelsByProvider net c)"
  by (cases "fetchModelsByProvider net c") (simp add: resolve_connection_def split: sum.splits)

lemma all_fulfilled:
  assumes "map g xs = map Inr mss"
  shows "earliest_rejection best (map (\<lambda>i. (instant i, g i)) xs) = best \<and>
         fulfilments (map g xs) = mss"
  using assms
proof (induction xs arbitrary: mss)
  case Nil
  then show ?case by (simp add: fulfilments_def)
next
  case (Cons x xs)
  then obtain ms rest where mss: "mss = ms # rest"
    by (cases mss) auto
  with Cons.prems have x: "g x = Inr ms" and rest: "map g xs = map Inr rest"
    by simp_all
  from Cons.IH [OF rest] have "earliest_rejection best (map (\<lambda>i. (instant i, g i)) xs) = best"
    and "fulfilments (map g xs) = rest"
    by simp_all
  with x mss show ?case
    by (simp add: fulfilments_def)
qed

lemma resolve_all_fulfilled:
  assumes "map (\<lambda>i. fst (fetchModelsByProvider (net i) (cs ! i))) xs = map Inr mss"
  shows "map (\<lambda>i. fst (resolve_connection (net i) (cs ! i))) xs =
           map Inr (map (map with_name) mss)"
  using assms
proof (induction xs arbitrary: mss)
  case Nil
  then show ?case by simp
next
  case (Cons x xs)
  then obtain ms rest where mss: "mss = ms # rest"
    by (cases mss) auto
  with Cons.prems have "fst (fetchModelsByProvider (net x) (cs ! x)) = Inr ms"
    and "map (\<lambda>i. fst (fetchModelsByProvider (net i) (cs ! i))) xs = map Inr rest"
    by simp_all
  with Cons.IH [of rest] mss show ?case
    by (simp add: fst_resolve_connection)
qed

text \<open>The pass, by the outcome of \<^verbatim>\<open>Promise.all\<close>.\<close>

lemma pass_cases:
  "fetchAvailableModels instant net s =
     (case promise_all (map (\<lambda>i. (instant i,
                                   fst (resolve_connection (net i)
                                          (configured_connections s ! i))))
                          [0..<length (configured_connections s)]) of
        (t, Inr models) \<Rightarrow>
          \<lparr>availableModels = concat models, console_error = None,
           requested = concat (map (\<lambda>i. snd (fetchModelsByProvider (net i)
                                                (configured_connections s ! i)))
                                 [0..<length (configured_connections s)]),
           completed = t\<rparr>
      | (t, Inl error) \<Rightarrow>
          \<lparr>availableModels = [], console_error = Some error,
           requested = concat (map (\<lambda>i. snd (fetchModelsByProvider (net i)
                                                (configured_connections s ! i)))
                                 [0..<length (configured_connections s)]),
           completed = t\<rparr>)"
  by (simp add: fetchAvailableModels_def Let_def snd_resolve_connection)

lemma pass_fulfilled:
  assumes "map (\<lambda>i. fst (fetchModelsByProvider (net i) (configured_connections s ! i)))
             [0..<length (configured_connections s)] = map Inr mss"
  shows "promise_all (map (\<lambda>i. (instant i,
                                  fst (resolve_connection (net i)
                                         (configured_connections s ! i))))
                        [0..<length (configured_connections s)]) =
           (fold max (map instant [0..<length (configured_connections s)]) 0,
            Inr (map (map with_name) mss))"
proof -
  let ?g = "\<lambda>i. fst (resolve_connection (net i) (configured_connections s ! i))"
  let ?xs = "[0..<length (configured_connections s)]"
  have g: "map ?g ?xs = map Inr (map (map with_name) mss)"
    by (rule resolve_all_fulfilled [OF assms])
  from all_fulfilled [OF g, of None instant]
  have "earliest_rejection None (map (\<lambda>i. (instant i, ?g i)) ?xs) = None"
    and "fulfilments (map ?g ?xs) = map (map with_name) mss"
    by simp_all
  then show ?thesis
    by (simp add: promise_all_def comp_def)
qed

lemma pass_rejected:
  assumes "i < length (configured_connections s)"
    and "fst (fetchModelsByProvider (net i) (configured_connections s ! i)) = Inl e"
  shows "\<exists>j e'. j < length (configured_connections s) \<and>
           fst (fetchModelsByProvider (net j) (configured_connections s ! j)) = Inl e' \<and>
           promise_all (map (\<lambda>i. (instant i,
                                    fst (resolve_connection (net i)
                                           (configured_connections s ! i))))
                          [0..<length (configured_connections s)]) =
             (instant j, Inl e')"
proof -
  let ?g = "\<lambda>i. fst (resolve_connection (net i) (configured_connections s ! i))"
  let ?ps = "map (\<lambda>i. (instant i, ?g i)) [0..<length (configured_connections s)]"
  from assms have "?g i = Inl e"
    by (simp add: fst_resolve_connection)
  with assms(1) have "(instant i, Inl e) \<in> set ?ps"
    by force
  from earliest_rejection_found [OF this, of None]
  obtain t e' where found: "earliest_rejection None ?ps = Some (t, e')"
    by (cases "earliest_rejection None ?ps") auto
  from earliest_rejection_source [OF this] have "(t, Inl e') \<in> set ?ps"
    by simp
  then obtain j where j: "j < length (configured_connections s)"
    and t: "t = instant j" and r: "?g j = Inl e'"
    by auto
  from r have "fst (fetchModelsByProvider (net j) (configured_connections s ! j)) = Inl e'"
    by (simp add: fst_resolve_connection split: sum.splits)
  with j t found show ?thesis
    by (auto simp: promise_all_def)
qed

text \<open>
  C8. When the resolution of every connection succeeds, the catalogue is the
  concatenation of the per-connection model lists (each model with its display name
  set), in the order of the connections; nothing is logged; and the pass completes, that
  is sets the catalogue, only after every per-connection resolution has settled: no
  resolution settles at an instant later than the one at which the pass completes.
\<close>

theorem catalog_is_concatenation:
  assumes "map (\<lambda>i. fst (fetchModelsByProvider (net i) (configured_connections s ! i)))
             [0..<length (configured_connections s)] = map Inr mss"
  shows "availableModels (fetchAvailableModels instant net s) =
           concat (map (map with_name) mss) \<and>
         useAvailableModels instant net s = concat (map (map with_name) mss) \<and>
         console_error (fetchAvailableModels instant net s) = None \<and>
         (\<forall>i < length (configured_connections s).
            instant i \<le> completed (fetchAvailableModels instant net s))"
proof -
  let ?n = "length (configured_connections s)"
  have pass: "fetchAvailableModels instant net s =
      \<lparr>availableModels = concat (map (map with_name) mss), console_error = None,
       requested = concat (map (\<lambda>i. snd (fetchModelsByProvider (net i)
                                            (configured_connections s ! i))) [0..<?n]),
       completed = fold max (map instant [0..<?n]) 0\<rparr>"
    unfolding pass_cases pass_fulfilled [OF assms] by simp
  have "instant i \<le> fold max (map instant [0..<?n]) 0" if "i < ?n" for i
  proof -
    from that have "instant i \<in> set (map instant [0..<?n])"
      by simp
    with fold_max_bounds [of 0 "map instant [0..<?n]"] show ?thesis
      by blast
  qed
  with pass show ?thesis
    by (simp add: useAvailableModels_def)
qed

theorem catalog_is_concatenation_witness:
  "fetchAvailableModels (\<lambda>i. 7 - 2 * i)
     (\<lambda>i u. if u = ''http://localhost:11434/api/tags''
            then Some (Some (JObj [(''models'', JArr [JObj [(''name'', JStr ''a'')],
                                                       JObj [(''name'', JStr ''b'')]])]))
            else None)
     (Some \<lparr>settings_data = Some \<lparr>data_general = Some \<lparr>general_connections = Some
        [\<lparr>conn_id = ''c7'', conn_type = ''ollama'',
          conn_data = Some \<lparr>url = Some ''http://localhost:11434''\<rparr>\<rparr>,
         \<lparr>conn_id = ''x'', conn_type = ''anthropic'', conn_data = None\<rparr>,
         \<lparr>conn_id = ''g'', conn_type = ''groq'', conn_data = None\<rparr>]\<rparr>\<rparr>\<rparr>) =
   \<lparr>availableModels =
      [\<lparr>model_id = ''c7/a'',
        model_connection = \<lparr>conn_id = ''c7'', conn_type = ''ollama'',
                            conn_data = Some \<lparr>url = Some ''http://localhost:11434''\<rparr>\<rparr>,
        model_name = Some ''a''\<rparr>,
       \<lparr>model_id = ''c7/b'',
        model_connection = \<lparr>conn_id = ''c7'', conn_type = ''ollama'',
                            conn_data = Some \<lparr>url = Some ''http://localhost:11434''\<rparr>\<rparr>,
        model_name = Some ''b''\<rparr>,
       \<lparr>model_id = ''g/llama3-8b-8192'',
        model_connection = \<lparr>conn_id = ''g'', conn_type = ''groq'', conn_data = None\<rparr>,
        model_name = Some ''llama3-8b-8192''\<rparr>,
       \<lparr>model_id = ''g/llama3-70b-8192'',
        model_connection = \<lparr>conn_id = ''g'', conn_type = ''groq'', conn_data = None\<rparr>,
        model_name = Some ''llama3-70b-8192''\<rparr>,
       \<lparr>model_id = ''g/mixtral-8x7b-32768'',
        model_connection = \<lparr>conn_id = ''g'', conn_type = ''groq'', conn_data = None\<rparr>,
        model_name = Some ''mixtral-8x7b-32768''\<rparr>,
       \<lparr>model_id = ''g/gemma-7b-it'',
        model_connection = \<lparr>conn_id = ''g'', conn_type = ''groq'', conn_data = None\<rparr>,
        model_name = Some ''gemma-7b-it''\<rparr>],
    console_error = None,
    requested = [''http://localhost:11434/api/tags''],
    completed = 7\<rparr>"
proof -
  let ?instant = "\<lambda>i::nat. 7 - 2 * i"
  let ?net = "\<lambda>(i::nat) u. if u = ''http://localhost:11434/api/tags''
          then Some (Some (JObj [(''models'', JArr [JObj [(''name'', JStr ''a'')],
                                                     JObj [(''name'', JStr ''b'')]])]))
          else None"
  let ?o = "\<lparr>conn_id = ''c7'', conn_type = ''ollama'',
             conn_data = Some \<lparr>url = Some ''http://localhost:11434''\<rparr>\<rparr>"
  let ?x = "\<lparr>conn_id = ''x'', conn_type = ''anthropic'', conn_data = None\<rparr>"
  let ?g = "\<lparr>conn_id = ''g'', conn_type = ''groq'', conn_data = None\<rparr>"
  let ?s = "Some \<lparr>settings_data = Some \<lparr>data_general = Some \<lparr>general_connections =
              Some [?o, ?x, ?g]\<rparr>\<rparr>\<rparr>"
  let ?mss = "[[\<lparr>model_id = ''c7/a'', model_connection = ?o, model_name = None\<rparr>,
                \<lparr>model_id = ''c7/b'', model_connection = ?o, model_name = None\<rparr>],
               [],
               [\<lparr>model_id = ''g/llama3-8b-8192'', model_connection = ?g, model_name = None\<rparr>,
                \<lparr>model_id = ''g/llama3-70b-8192'', model_connection = ?g, model_name = None\<rparr>,
                \<lparr>model_id = ''g/mixtral-8x7b-32768'', model_connection = ?g, model_name = None\<rparr>,
                \<lparr>model_id = ''g/gemma-7b-it'', model_connection = ?g, model_name = None\<rparr>]]"
  have cs: "configured_connections ?s = [?o, ?x, ?g]"
    by (simp add: configured_connections_def)
  have upt: "[0..<length [?o, ?x, ?g]] = [0, 1, 2]"
    by (simp add: upt_rec)
  have h: "map (\<lambda>i. fst (fetchModelsByProvider (?net i) (configured_connections ?s ! i)))
             [0..<length (configured_connections ?s)] = map Inr ?mss"
    unfolding cs upt
    by (simp add: fetchModelsByProvider_def static_model_def tags_url_def ollama_model_def
          plus_string_def)
  have reqs: "requested (fetchAvailableModels ?instant ?net ?s) =
                [''http://localhost:11434/api/tags'']"
    unfolding pass_cases cs upt
    by (simp add: fetchModelsByProvider_def tags_url_def split: prod.splits sum.splits)
  have upper: "completed (fetchAvailableModels ?instant ?net ?s) \<le> 7"
    unfolding pass_cases pass_fulfilled [OF h] unfolding cs upt by simp
  have named: "concat (map (map with_name) ?mss) =
      [\<lparr>model_id = ''c7/a'', model_connection = ?o, model_name = Some ''a''\<rparr>,
       \<lparr>model_id = ''c7/b'', model_connection = ?o, model_name = Some ''b''\<rparr>,
       \<lparr>model_id = ''g/llama3-8b-8192'', model_connection = ?g,
        model_name = Some ''llama3-8b-8192''\<rparr>,
       \<lparr>model_id = ''g/llama3-70b-8192'', model_connection = ?g,
        model_name = Some ''llama3-70b-8192''\<rparr>,
       \<lparr>model_id = ''g/mixtral-8x7b-32768'', model_connection = ?g,
        model_name = Some ''mixtral-8x7b-32768''\<rparr>,
       \<lparr>model_id = ''g/gemma-7b-it'', model_connection = ?g,
        model_name = Some ''gemma-7b-it''\<rparr>]"
    by (simp add: with_name_def split_limit_def index_def)
  note all = catalog_is_concatenation [where net = ?net and instant = ?instant, OF h]
  have models: "availableModels (fetchAvailableModels ?instant ?net ?s) =
                  concat (map (map with_name) ?mss)"
    by (rule all [THEN conjunct1])
  have logged: "console_error (fetchAvailableModels ?instant ?net ?s) = None"
    by (rule all [THEN conjunct2, THEN conjunct2, THEN conjunct1])
  have "0 < length (configured_connections ?s)"
    unfolding cs by simp
  with all have lower: "?instant 0 \<le> completed (fetchAvailableModels ?instant ?net ?s)"
    by blast
  from lower upper have "completed (fetchAvailableModels ?instant ?net ?s) = 7"
    by simp
  with models [unfolded named] logged reqs show ?thesis
    by (cases "fetchAvailableModels ?instant ?net ?s") simp
qed

lemma rejected_pass_completes_first:
  assumes "i < length (configured_connections s)"
    and "fst (fetchModelsByProvider (net i) (configured_connections s ! i)) = Inl e"
  shows "completed (fetchAvailableModels instant net s) \<le> instant i"
proof -
  let ?g = "\<lambda>i. fst (resolve_connection (net i) (configured_connections s ! i))"
  let ?ps = "map (\<lambda>i. (instant i, ?g i)) [0..<length (configured_connections s)]"
  from assms have "?g i = Inl e"
    by (simp add: fst_resolve_connection)
  with assms(1) have mem: "(instant i, Inl e) \<in> set ?ps"
    by force
  from earliest_rejection_found [OF this, of None]
  obtain t e' where found: "earliest_rejection None ?ps = Some (t, e')"
    by (cases "earliest_rejection None ?ps") auto
  from earliest_rejection_least [OF this] mem have "t \<le> instant i"
    by blast
  moreover from found have "completed (fetchAvailableModels instant net s) = t"
    unfolding pass_cases by (simp add: promise_all_def)
  ultimately show ?thesis
    by simp
qed

text \<open>
  C4. When the resolution of some connection fails (whatever the reason: the endpoint is
  unreachable, the body is not JSON, the body is an object with no \<^verbatim>\<open>models\<close> member,
  or anything else that makes the resolver reject), the pass sets the catalogue to the
  empty list, with nothing of the connections that succeeded, and hands the reason of a
  failed resolution to the log.
\<close>

theorem failure_gives_empty_catalog:
  assumes "i < length (configured_connections s)"
    and "fst (fetchModelsByProvider (net i) (configured_connections s ! i)) = Inl e
         \<or> conn_type (configured_connections s ! i) = ''ollama'' \<and>
           conn_data (configured_connections s ! i) = Some d \<and>
           (net i (tags_url d) = None
            \<or> net i (tags_url d) = Some None
            \<or> (\<exists>kvs. net i (tags_url d) = Some (Some (JObj kvs)) \<and>
                       map_of (rev kvs) ''models'' = None))"
  shows "availableModels (fetchAvailableModels instant net s) = [] \<and>
         useAvailableModels instant net s = [] \<and>
         (\<exists>j e'. j < length (configured_connections s) \<and>
                  fst (fetchModelsByProvider (net j) (configured_connections s ! j)) = Inl e' \<and>
                  console_error (fetchAvailableModels instant net s) = Some e')"
proof -
  from assms(2)
  obtain e0 where "fst (fetchModelsByProvider (net i) (configured_connections s ! i)) = Inl e0"
    by (auto simp: fetchModelsByProvider_def)
  from pass_rejected [where net = net and instant = instant, OF assms(1) this]
  obtain j e' where j: "j < length (configured_connections s)"
    and e': "fst (fetchModelsByProvider (net j) (configured_connections s ! j)) = Inl e'"
    and all: "promise_all (map (\<lambda>i. (instant i,
                                       fst (resolve_connection (net i)
                                              (configured_connections s ! i))))
                             [0..<length (configured_connections s)]) = (instant j, Inl e')"
    by blast
  have "availableModels (fetchAvailableModels instant net s) = []"
    and "console_error (fetchAvailableModels instant net s) = Some e'"
    unfolding pass_cases all by simp_all
  with j e' show ?thesis
    unfolding useAvailableModels_def by blast
qed

theorem failure_gives_empty_catalog_witness:
  "useAvailableModels (\<lambda>i. i) (\<lambda>i u. None)
     (Some \<lparr>settings_data = Some \<lparr>data_general = Some \<lparr>general_connections = Some
        [\<lparr>conn_id = ''g'', conn_type = ''groq'', conn_data = None\<rparr>,
         \<lparr>conn_id = ''c7'', conn_type = ''ollama'',
          conn_data = Some \<lparr>url = Some ''http://localhost:11434''\<rparr>\<rparr>]\<rparr>\<rparr>\<rparr>) = [] \<and>
   console_error (fetchAvailableModels (\<lambda>i. i) (\<lambda>i u. None)
     (Some \<lparr>settings_data = Some \<lparr>data_general = Some \<lparr>general_connections = Some
        [\<lparr>conn_id = ''g'', conn_type = ''groq'', conn_data = None\<rparr>,
         \<lparr>conn_id = ''c7'', conn_type = ''ollama'',
          conn_data = Some \<lparr>url = Some ''http://localhost:11434''\<rparr>\<rparr>]\<rparr>\<rparr>\<rparr>)) =
     Some FetchRejected \<and>
   useAvailableModels (\<lambda>i. i) (\<lambda>i u. Some (Some (JObj [(''error'', JStr ''not found'')])))
     (Some \<lparr>settings_data = Some \<lparr>data_general = Some \<lparr>general_connections = Some
        [\<lparr>conn_id = ''g'', conn_type = ''groq'', conn_data = None\<rparr>,
         \<lparr>conn_id = ''c7'', conn_type = ''ollama'',
          conn_data = Some \<lparr>url = Some ''http://localhost:11434''\<rparr>\<rparr>]\<rparr>\<rparr>\<rparr>) = [] \<and>
   useAvailableModels (\<lambda>i. i)
     (\<lambda>i u. Some (Some (JObj [(''models'',
                JArr [JObj [(''name'', JStr ''a'')],
                      JObj [(''name'', JObj [(''toString'', JNum ''1'')])]])])))
     (Some \<lparr>settings_data = Some \<lparr>data_general = Some \<lparr>general_connections = Some
        [\<lparr>conn_id = ''g'', conn_type = ''groq'', conn_data = None\<rparr>,
         \<lparr>conn_id = ''c7'', conn_type = ''ollama'',
          conn_data = Some \<lparr>url = Some ''http://localhost:11434''\<rparr>\<rparr>]\<rparr>\<rparr>\<rparr>) = []"
proof -
  let ?o = "\<lparr>conn_id = ''c7'', conn_type = ''ollama'',
             conn_data = Some \<lparr>url = Some ''http://localhost:11434''\<rparr>\<rparr>"
  let ?g = "\<lparr>conn_id = ''g'', conn_type = ''groq'', conn_data = None\<rparr>"
  let ?s = "Some \<lparr>settings_data = Some \<lparr>data_general = Some \<lparr>general_connections =
              Some [?g, ?o]\<rparr>\<rparr>\<rparr>"
  let ?d = "\<lparr>url = Some ''http://localhost:11434''\<rparr>"
  let ?down = "\<lambda>(i::nat) (u::string). None :: json option option"
  let ?nomodels = "\<lambda>(i::nat) (u::string). Some (Some (JObj [(''error'', JStr ''not found'')]))"
  let ?badname = "\<lambda>(i::nat) (u::string). Some (Some (JObj [(''models'',
                JArr [JObj [(''name'', JStr ''a'')],
                      JObj [(''name'', JObj [(''toString'', JNum ''1'')])]])]))"
  have cs: "configured_connections ?s = [?g, ?o]"
    by (simp add: configured_connections_def)
  have pos: "1 < length (configured_connections ?s)"
    unfolding cs by simp
  have unreachable: "conn_type (configured_connections ?s ! 1) = ''ollama'' \<and>
      conn_data (configured_connections ?s ! 1) = Some ?d \<and>
      (?down 1 (tags_url ?d) = None
       \<or> ?down 1 (tags_url ?d) = Some None
       \<or> (\<exists>kvs. ?down 1 (tags_url ?d) = Some (Some (JObj kvs)) \<and>
                  map_of (rev kvs) ''models'' = None))"
    unfolding cs by simp
  have malformed: "conn_type (configured_connections ?s ! 1) = ''ollama'' \<and>
      conn_data (configured_connections ?s ! 1) = Some ?d \<and>
      (?nomodels 1 (tags_url ?d) = None
       \<or> ?nomodels 1 (tags_url ?d) = Some None
       \<or> (\<exists>kvs. ?nomodels 1 (tags_url ?d) = Some (Some (JObj kvs)) \<and>
                  map_of (rev kvs) ''models'' = None))"
    unfolding cs by simp
  have thrown: "fst (fetchModelsByProvider (?badname 1) (configured_connections ?s ! 1)) =
                  Inl TypeError"
    unfolding cs
    by (simp add: fetchModelsByProvider_def tags_url_def ollama_model_def plus_string_def)
  have logged: "console_error (fetchAvailableModels (\<lambda>i. i) ?down ?s) = Some FetchRejected"
    unfolding pass_cases cs
    by (simp add: upt_rec promise_all_def resolve_connection_def fetchModelsByProvider_def
          static_model_def tags_url_def)
  from failure_gives_empty_catalog
         [where net = ?down and instant = "\<lambda>i. i" and e = FetchRejected,
          OF pos disjI2 [OF unreachable]]
       failure_gives_empty_catalog
         [where net = ?nomodels and instant = "\<lambda>i. i" and e = TypeError,
          OF pos disjI2 [OF malformed]]
       failure_gives_empty_catalog
         [where net = ?badname and instant = "\<lambda>i. i" and d = ?d, OF pos disjI1 [OF thrown]]
       logged
  show ?thesis
    by blast
qed

text \<open>
  C9. When the settings collaborator gives no connection list (the settings, their
  \<^verbatim>\<open>data\<close>, its \<^verbatim>\<open>general\<close>, or its \<^verbatim>\<open>connections\<close> is missing), the pass sets the
  catalogue to the empty list, logs nothing and issues no request.
\<close>

theorem no_connection_list_empty_catalog:
  "fetchAvailableModels instant net None =
     \<lparr>availableModels = [], console_error = None, requested = [], completed = 0\<rparr> \<and>
   fetchAvailableModels instant net (Some \<lparr>settings_data = None\<rparr>) =
     \<lparr>availableModels = [], console_error = None, requested = [], completed = 0\<rparr> \<and>
   fetchAvailableModels instant net (Some \<lparr>settings_data = Some \<lparr>data_general = None\<rparr>\<rparr>) =
     \<lparr>availableModels = [], console_error = None, requested = [], completed = 0\<rparr> \<and>
   fetchAvailableModels instant net
     (Some \<lparr>settings_data = Some \<lparr>data_general = Some \<lparr>general_connections = None\<rparr>\<rparr>\<rparr>) =
     \<lparr>availableModels = [], console_error = None, requested = [], completed = 0\<rparr>"
  by (simp add: fetchAvailableModels_def configured_connections_def promise_all_def
        fulfilments_def)

section \<open>Model identifiers\<close>

lemma map_throwing_member:
  "map_throwing f xs = Inr ys \<Longrightarrow> y \<in> set ys \<Longrightarrow> \<exists>x \<in> set xs. f x = Inr y"
  by (induction xs arbitrary: ys) (auto split: sum.splits)

lemma array_map_member:
  assumes "array_map f v = Inr ys" and "y \<in> set ys"
  shows "\<exists>x. f x = Inr y"
proof -
  from assms(1) obtain xs where xs: "map_throwing f xs = Inr ys"
    by (cases "(f, v)" rule: array_map.cases) auto
  from map_throwing_member [OF xs assms(2)] show ?thesis
    by blast
qed

lemma ollama_model_shape:
  "ollama_model c x = Inr m \<Longrightarrow>
     prefix (conn_id c @ ''/'') (model_id m) \<and> model_connection m = c"
  by (auto simp: ollama_model_def plus_string_def split: sum.splits option.splits)

lemma resolved_model_shape:
  assumes "fst (fetchModelsByProvider net c) = Inr ms" and "m \<in> set ms"
  shows "prefix (conn_id c @ ''/'') (model_id m) \<and> model_connection m = c"
proof -
  consider (openai) "conn_type c = ''openai''"
    | (groq) "conn_type c = ''groq''"
    | (ollama) "conn_type c = ''ollama''"
    | (other) "conn_type c \<notin> {''openai'', ''groq'', ''ollama''}"
    by auto
  then show ?thesis
  proof cases
    case openai
    with assms show ?thesis
      by (auto simp: fetchModelsByProvider_def static_model_def)
  next
    case groq
    with assms show ?thesis
      by (auto simp: fetchModelsByProvider_def static_model_def)
  next
    case ollama
    with assms obtain records where "array_map (ollama_model c) records = Inr ms"
      by (auto simp: fetchModelsByProvider_def split: option.splits sum.splits)
    from array_map_member [OF this assms(2)] show ?thesis
      using ollama_model_shape by blast
  next
    case other
    with assms show ?thesis
      by (simp add: fetchModelsByProvider_def)
  qed
qed

text \<open>
  The same holds of every model of the catalogue the hook returns: setting the display
  name changes neither the id nor the back-reference.
\<close>

lemma fulfilments_member:
  "x \<in> set (concat (fulfilments rs)) \<Longrightarrow> \<exists>xs. Inr xs \<in> set rs \<and> x \<in> set xs"
proof (induction rs)
  case Nil
  then show ?case by (simp add: fulfilments_def)
next
  case (Cons r rs)
  show ?case
  proof (cases r)
    case (Inl e)
    with Cons.prems have "x \<in> set (concat (fulfilments rs))"
      by (simp add: fulfilments_def)
    from Cons.IH [OF this] show ?thesis by auto
  next
    case (Inr xs)
    with Cons.prems have "x \<in> set xs \<or> x \<in> set (concat (fulfilments rs))"
      by (simp add: fulfilments_def)
    with Cons.IH Inr show ?thesis by auto
  qed
qed

lemma with_name_keeps:
  "model_id (with_name m) = model_id m \<and> model_connection (with_name m) = model_connection m"
  by (simp add: with_name_def)

lemma catalog_member:
  assumes "m \<in> set (useAvailableModels instant net s)"
  shows "\<exists>i ms0 m0. i < length (configured_connections s) \<and>
           fst (fetchModelsByProvider (net i) (configured_connections s ! i)) = Inr ms0 \<and>
           m0 \<in> set ms0 \<and> m = with_name m0"
proof -
  let ?g = "\<lambda>i. fst (resolve_connection (net i) (configured_connections s ! i))"
  let ?xs = "[0..<length (configured_connections s)]"
  let ?ps = "map (\<lambda>i. (instant i, ?g i)) ?xs"
  obtain t r where all: "promise_all ?ps = (t, r)"
    by (cases "promise_all ?ps")
  have "m \<in> set (concat (fulfilments (map ?g ?xs)))"
  proof (cases r)
    case (Inl e)
    with assms all show ?thesis
      unfolding useAvailableModels_def pass_cases by simp
  next
    case (Inr models)
    with assms all have "m \<in> set (concat models)"
      unfolding useAvailableModels_def pass_cases by simp
    moreover from all Inr have "models = fulfilments (map snd ?ps)"
      by (auto simp: promise_all_def split: option.splits)
    ultimately show ?thesis
      by (simp add: comp_def)
  qed
  from fulfilments_member [OF this]
  obtain ms where "Inr ms \<in> set (map ?g ?xs)" and m: "m \<in> set ms"
    by blast
  then obtain i where i: "i < length (configured_connections s)" and r: "?g i = Inr ms"
    by auto
  from r obtain ms0
    where ms0: "fst (fetchModelsByProvider (net i) (configured_connections s ! i)) = Inr ms0"
      and ms: "ms = map with_name ms0"
    unfolding fst_resolve_connection
    by (cases "fst (fetchModelsByProvider (net i) (configured_connections s ! i))") auto
  from m ms obtain m0 where "m0 \<in> set ms0" and "m = with_name m0"
    by auto
  with i ms0 show ?thesis
    by blast
qed

lemma catalog_model_shape:
  assumes "m \<in> set (useAvailableModels instant net s)"
  shows "\<exists>c \<in> set (configured_connections s).
           prefix (conn_id c @ ''/'') (model_id m) \<and> model_connection m = c"
proof -
  from catalog_member [OF assms]
  obtain i ms0 m0 where i: "i < length (configured_connections s)"
    and ms0: "fst (fetchModelsByProvider (net i) (configured_connections s ! i)) = Inr ms0"
    and m0: "m0 \<in> set ms0" and m: "m = with_name m0"
    by blast
  from i have "configured_connections s ! i \<in> set (configured_connections s)"
    by (rule nth_mem)
  with resolved_model_shape [OF ms0 m0] m with_name_keeps [of m0] show ?thesis
    by auto
qed

lemma slash_free_ids_not_prefix:
  assumes "a \<noteq> b" and "CHR ''/'' \<notin> set b"
  shows "\<not> prefix (a @ ''/'') (b @ ''/'')"
proof
  assume "prefix (a @ ''/'') (b @ ''/'')"
  then obtain r where r: "b @ ''/'' = a @ ''/'' @ r"
    by (auto simp: prefix_def)
  show False
  proof (cases r rule: rev_cases)
    case Nil
    with r assms(1) show False by simp
  next
    case (snoc r' x)
    with r have "b = a @ ''/'' @ r'" by simp
    with assms(2) show False by simp
  qed
qed

text \<open>
  C7 (as the code has it). In every branch of the resolver and on every run, the id of a
  resolved model begins with the id of the connection it was resolved for, followed by
  \<^verbatim>\<open>/\<close>, and the model refers back to that connection. The ids of two models resolved
  for two connections differ whenever neither connection id followed by \<^verbatim>\<open>/\<close> is a
  prefix of the other connection id followed by \<^verbatim>\<open>/\<close>; in particular whenever the two
  connection ids are distinct and hold no \<^verbatim>\<open>/\<close>.
\<close>

theorem model_id_prefixed_and_distinct:
  assumes "fst (fetchModelsByProvider net1 c1) = Inr ms1" and "m1 \<in> set ms1"
    and "fst (fetchModelsByProvider net2 c2) = Inr ms2" and "m2 \<in> set ms2"
  shows "prefix (conn_id c1 @ ''/'') (model_id m1) \<and> model_connection m1 = c1 \<and>
         (\<not> prefix (conn_id c1 @ ''/'') (conn_id c2 @ ''/'') \<and>
          \<not> prefix (conn_id c2 @ ''/'') (conn_id c1 @ ''/'')
            \<longrightarrow> model_id m1 \<noteq> model_id m2) \<and>
         (conn_id c1 \<noteq> conn_id c2 \<and> CHR ''/'' \<notin> set (conn_id c1) \<and>
          CHR ''/'' \<notin> set (conn_id c2)
            \<longrightarrow> model_id m1 \<noteq> model_id m2)"
proof -
  have p1: "prefix (conn_id c1 @ ''/'') (model_id m1)" and b1: "model_connection m1 = c1"
    using resolved_model_shape [OF assms(1,2)] by simp_all
  have p2: "prefix (conn_id c2 @ ''/'') (model_id m2)"
    using resolved_model_shape [OF assms(3,4)] by simp
  have general: "model_id m1 \<noteq> model_id m2"
    if "\<not> prefix (conn_id c1 @ ''/'') (conn_id c2 @ ''/'')"
      and "\<not> prefix (conn_id c2 @ ''/'') (conn_id c1 @ ''/'')"
  proof
    assume "model_id m1 = model_id m2"
    with p1 p2 have "prefix (conn_id c1 @ ''/'') (conn_id c2 @ ''/'') \<or>
                     prefix (conn_id c2 @ ''/'') (conn_id c1 @ ''/'')"
      using prefix_same_cases by metis
    with that show False by blast
  qed
  have "model_id m1 \<noteq> model_id m2"
    if "conn_id c1 \<noteq> conn_id c2" and "CHR ''/'' \<notin> set (conn_id c1)"
      and "CHR ''/'' \<notin> set (conn_id c2)"
    using general slash_free_ids_not_prefix [OF that(1) that(3)]
      slash_free_ids_not_prefix [OF that(1) [symmetric] that(2)]
    by blast
  with p1 b1 general show ?thesis
    by blast
qed

theorem model_id_prefixed_and_distinct_witness:
  "fst (fetchModelsByProvider
          (\<lambda>u. Some (Some (JObj [(''models'', JArr [JObj [(''name'', JStr ''a'')]])])))
          \<lparr>conn_id = ''c7'', conn_type = ''ollama'', conn_data = Some \<lparr>url = None\<rparr>\<rparr>) =
     Inr [\<lparr>model_id = ''c7/a'',
           model_connection =
             \<lparr>conn_id = ''c7'', conn_type = ''ollama'', conn_data = Some \<lparr>url = None\<rparr>\<rparr>,
           model_name = None\<rparr>] \<and>
   fst (fetchModelsByProvider
          (\<lambda>u. Some (Some (JObj [(''models'', JArr [JObj [(''name'', JStr ''a'')]])])))
          \<lparr>conn_id = ''c8'', conn_type = ''ollama'', conn_data = Some \<lparr>url = None\<rparr>\<rparr>) =
     Inr [\<lparr>model_id = ''c8/a'',
           model_connection =
             \<lparr>conn_id = ''c8'', conn_type = ''ollama'', conn_data = Some \<lparr>url = None\<rparr>\<rparr>,
           model_name = None\<rparr>] \<and>
   prefix (''c7'' @ ''/'') ''c7/a'' \<and> ''c7/a'' \<noteq> ''c8/a''"
proof -
  let ?net = "\<lambda>u::string. Some (Some (JObj [(''models'', JArr [JObj [(''name'', JStr ''a'')]])]))"
  let ?c1 = "\<lparr>conn_id = ''c7'', conn_type = ''ollama'', conn_data = Some \<lparr>url = None\<rparr>\<rparr>"
  let ?c2 = "\<lparr>conn_id = ''c8'', conn_type = ''ollama'', conn_data = Some \<lparr>url = None\<rparr>\<rparr>"
  let ?m1 = "\<lparr>model_id = ''c7/a'', model_connection = ?c1, model_name = None\<rparr>"
  let ?m2 = "\<lparr>model_id = ''c8/a'', model_connection = ?c2, model_name = None\<rparr>"
  have h1: "fst (fetchModelsByProvider ?net ?c1) = Inr [?m1]"
    by (simp add: fetchModelsByProvider_def tags_url_def ollama_model_def plus_string_def)
  have h2: "fst (fetchModelsByProvider ?net ?c2) = Inr [?m2]"
    by (simp add: fetchModelsByProvider_def tags_url_def ollama_model_def plus_string_def)
  have in1: "?m1 \<in> set [?m1]" and in2: "?m2 \<in> set [?m2]"
    by simp_all
  show ?thesis
    using model_id_prefixed_and_distinct [OF h1 in1 h2 in2] h1 h2
    by simp
qed

text \<open>
  C7 as the spec states it, for any two distinct connection ids, fails: the
  connection \<^verbatim>\<open>a\<close>, whose endpoint lists the model \<^verbatim>\<open>b/gpt-4-turbo\<close>, and the
  connection \<^verbatim>\<open>a/b\<close> of type \<^verbatim>\<open>openai\<close> both resolve a model with the id
  \<^verbatim>\<open>a/b/gpt-4-turbo\<close>.
\<close>

theorem distinct_connections_same_model_id:
  "fst (fetchModelsByProvider
          (\<lambda>u. Some (Some (JObj [(''models'', JArr [JObj [(''name'', JStr ''b/gpt-4-turbo'')]])])))
          \<lparr>conn_id = ''a'', conn_type = ''ollama'',
           conn_data = Some \<lparr>url = Some ''http://localhost:11434''\<rparr>\<rparr>) =
     Inr [\<lparr>model_id = ''a/b/gpt-4-turbo'',
           model_connection = \<lparr>conn_id = ''a'', conn_type = ''ollama'',
                               conn_data = Some \<lparr>url = Some ''http://localhost:11434''\<rparr>\<rparr>,
           model_name = None\<rparr>] \<and>
   fst (fetchModelsByProvider
          (\<lambda>u. Some (Some (JObj [(''models'', JArr [JObj [(''name'', JStr ''b/gpt-4-turbo'')]])])))
          \<lparr>conn_id = ''a/b'', conn_type = ''openai'', conn_data = None\<rparr>) =
     Inr [\<lparr>model_id = ''a/b/gpt-3.5-turbo-0125'',
           model_connection = \<lparr>conn_id = ''a/b'', conn_type = ''openai'', conn_data = None\<rparr>,
           model_name = None\<rparr>,
          \<lparr>model_id = ''a/b/gpt-4-turbo'',
           model_connection = \<lparr>conn_id = ''a/b'', conn_type = ''openai'', conn_data = None\<rparr>,
           model_name = None\<rparr>,
          \<lparr>model_id = ''a/b/gpt-3.5-turbo'',
           model_connection = \<lparr>conn_id = ''a/b'', conn_type = ''openai'', conn_data = None\<rparr>,
           model_name = None\<rparr>,
          \<lparr>model_id = ''a/b/gpt-4o-mini'',
           model_connection = \<lparr>conn_id = ''a/b'', conn_type = ''openai'', conn_data = None\<rparr>,
           model_name = None\<rparr>] \<and>
   ''a'' \<noteq> ''a/b''"
  by (simp add: fetchModelsByProvider_def static_model_def tags_url_def ollama_model_def
        plus_string_def)

section \<open>Dependence on the connection\<close>

text \<open>
  C10 (as the code has it). For a connection of type \<^verbatim>\<open>openai\<close> or \<^verbatim>\<open>groq\<close> or of an
  unrecognised type, two runs on connections of equal type and id resolve the same ids
  in the same order, whatever the configuration payloads and the states of the network;
  each entry refers back to the connection of its own run, so that the two lists are
  identical when the connections are; and no run issues a request.
\<close>

theorem fixed_and_unrecognised_same_ids:
  assumes "conn_type c1 \<noteq> ''ollama''"
    and "conn_type c2 = conn_type c1"
    and "conn_id c2 = conn_id c1"
  shows "(\<exists>ids. fetchModelsByProvider net1 c1 =
                  (Inr (map (\<lambda>i. \<lparr>model_id = i, model_connection = c1, model_name = None\<rparr>)
                         ids), []) \<and>
                fetchModelsByProvider net2 c2 =
                  (Inr (map (\<lambda>i. \<lparr>model_id = i, model_connection = c2, model_name = None\<rparr>)
                         ids), [])) \<and>
         fetchModelsByProvider net1 c1 = fetchModelsByProvider net2 c1"
proof -
  consider (openai) "conn_type c1 = ''openai''"
    | (groq) "conn_type c1 = ''groq''"
    | (other) "conn_type c1 \<notin> {''openai'', ''groq'', ''ollama''}"
    using assms(1) by auto
  then show ?thesis
  proof cases
    case openai
    let ?ids = "map (\<lambda>s. conn_id c1 @ s)
                  [''/gpt-3.5-turbo-0125'', ''/gpt-4-turbo'', ''/gpt-3.5-turbo'', ''/gpt-4o-mini'']"
    have "fetchModelsByProvider net1 c1 =
            (Inr (map (\<lambda>i. \<lparr>model_id = i, model_connection = c1, model_name = None\<rparr>) ?ids), [])"
      and "fetchModelsByProvider net2 c2 =
            (Inr (map (\<lambda>i. \<lparr>model_id = i, model_connection = c2, model_name = None\<rparr>) ?ids), [])"
      and "fetchModelsByProvider net1 c1 = fetchModelsByProvider net2 c1"
      using openai assms(2,3) by (simp_all add: fetchModelsByProvider_def static_model_def)
    then show ?thesis by blast
  next
    case groq
    let ?ids = "map (\<lambda>s. conn_id c1 @ s)
                  [''/llama3-8b-8192'', ''/llama3-70b-8192'', ''/mixtral-8x7b-32768'',
                   ''/gemma-7b-it'']"
    have "fetchModelsByProvider net1 c1 =
            (Inr (map (\<lambda>i. \<lparr>model_id = i, model_connection = c1, model_name = None\<rparr>) ?ids), [])"
      and "fetchModelsByProvider net2 c2 =
            (Inr (map (\<lambda>i. \<lparr>model_id = i, model_connection = c2, model_name = None\<rparr>) ?ids), [])"
      and "fetchModelsByProvider net1 c1 = fetchModelsByProvider net2 c1"
      using groq assms(2,3) by (simp_all add: fetchModelsByProvider_def static_model_def)
    then show ?thesis by blast
  next
    case other
    have "fetchModelsByProvider net1 c1 =
            (Inr (map (\<lambda>i. \<lparr>model_id = i, model_connection = c1, model_name = None\<rparr>) []), [])"
      and "fetchModelsByProvider net2 c2 =
            (Inr (map (\<lambda>i. \<lparr>model_id = i, model_connection = c2, model_name = None\<rparr>) []), [])"
      and "fetchModelsByProvider net1 c1 = fetchModelsByProvider net2 c1"
      using other assms(2,3) by (simp_all add: fetchModelsByProvider_def)
    then show ?thesis by blast
  qed
qed

theorem fixed_and_unrecognised_same_ids_witness:
  "(\<exists>ids. fetchModelsByProvider (\<lambda>u. None)
             \<lparr>conn_id = ''c1'', conn_type = ''groq'',
              conn_data = Some \<lparr>url = Some ''https://api.groq.com''\<rparr>\<rparr> =
           (Inr (map (\<lambda>i. \<lparr>model_id = i,
                            model_connection =
                              \<lparr>conn_id = ''c1'', conn_type = ''groq'',
                               conn_data = Some \<lparr>url = Some ''https://api.groq.com''\<rparr>\<rparr>,
                            model_name = None\<rparr>) ids), []) \<and>
          fetchModelsByProvider (\<lambda>u. Some None)
             \<lparr>conn_id = ''c1'', conn_type = ''groq'', conn_data = None\<rparr> =
           (Inr (map (\<lambda>i. \<lparr>model_id = i,
                            model_connection =
                              \<lparr>conn_id = ''c1'', conn_type = ''groq'', conn_data = None\<rparr>,
                            model_name = None\<rparr>) ids), [])) \<and>
   fetchModelsByProvider (\<lambda>u. None)
     \<lparr>conn_id = ''c1'', conn_type = ''groq'',
      conn_data = Some \<lparr>url = Some ''https://api.groq.com''\<rparr>\<rparr> =
   fetchModelsByProvider (\<lambda>u. Some None)
     \<lparr>conn_id = ''c1'', conn_type = ''groq'',
      conn_data = Some \<lparr>url = Some ''https://api.groq.com''\<rparr>\<rparr>"
proof -
  let ?c1 = "\<lparr>conn_id = ''c1'', conn_type = ''groq'',
              conn_data = Some \<lparr>url = Some ''https://api.groq.com''\<rparr>\<rparr>"
  let ?c2 = "\<lparr>conn_id = ''c1'', conn_type = ''groq'', conn_data = None\<rparr>"
  have t: "conn_type ?c1 \<noteq> ''ollama''" and ty: "conn_type ?c2 = conn_type ?c1"
    and i: "conn_id ?c2 = conn_id ?c1"
    by simp_all
  show ?thesis
    by (rule fixed_and_unrecognised_same_ids [OF t ty i])
qed

text \<open>
  C10 as the spec states it, that the resolved list is a function of the type and the id
  alone, fails: every resolved model carries its whole connection, payload included, so
  two connections of equal type and id and different payloads resolve different lists.
\<close>

theorem same_type_and_id_different_models:
  "conn_type \<lparr>conn_id = ''c1'', conn_type = ''openai'',
              conn_data = Some \<lparr>url = Some ''https://api.openai.com/v1''\<rparr>\<rparr> =
   conn_type \<lparr>conn_id = ''c1'', conn_type = ''openai'',
              conn_data = Some \<lparr>url = Some ''https://proxy.example/v1''\<rparr>\<rparr> \<and>
   conn_id \<lparr>conn_id = ''c1'', conn_type = ''openai'',
            conn_data = Some \<lparr>url = Some ''https://api.openai.com/v1''\<rparr>\<rparr> =
   conn_id \<lparr>conn_id = ''c1'', conn_type = ''openai'',
            conn_data = Some \<lparr>url = Some ''https://proxy.example/v1''\<rparr>\<rparr> \<and>
   fst (fetchModelsByProvider (\<lambda>u. None)
          \<lparr>conn_id = ''c1'', conn_type = ''openai'',
           conn_data = Some \<lparr>url = Some ''https://api.openai.com/v1''\<rparr>\<rparr>) \<noteq>
   fst (fetchModelsByProvider (\<lambda>u. None)
          \<lparr>conn_id = ''c1'', conn_type = ''openai'',
           conn_data = Some \<lparr>url = Some ''https://proxy.example/v1''\<rparr>\<rparr>)"
  by (simp add: fetchModelsByProvider_def static_model_def)

section \<open>Display names\<close>

text \<open>
  The display name is the second piece of the id split at \<^verbatim>\<open>/\<close>. For a connection id
  with no \<^verbatim>\<open>/\<close> that is the provider's model name up to its first \<^verbatim>\<open>/\<close>: the whole
  name when the name has none.
\<close>

lemma split_char_not_Nil: "split_char sep s \<noteq> []"
  by (induction s) (auto split: list.splits)

lemma split_char_append:
  "sep \<notin> set a \<Longrightarrow> split_char sep (a @ sep # b) = a # split_char sep b"
  by (induction a) (auto split: list.splits)

lemma hd_split_char: "hd (split_char sep s) = takeWhile (\<lambda>x. x \<noteq> sep) s"
  by (induction s) (auto simp: split_char_not_Nil split: list.splits)

lemma display_name_first_segment:
  assumes "CHR ''/'' \<notin> set (conn_id c)"
  shows "model_name (with_name \<lparr>model_id = conn_id c @ ''/'' @ n, model_connection = c,
                                model_name = None\<rparr>) =
           Some (takeWhile (\<lambda>x. x \<noteq> CHR ''/'') n)"
proof -
  obtain p ps where ps: "split_char CHR ''/'' n = p # ps"
    using split_char_not_Nil [of "CHR ''/''" n] by (cases "split_char CHR ''/'' n") auto
  then have "p = takeWhile (\<lambda>x. x \<noteq> CHR ''/'') n"
    using hd_split_char [of "CHR ''/''" n] by simp
  with ps assms show ?thesis
    using split_char_append [of "CHR ''/''" "conn_id c" n]
    by (simp add: with_name_def split_limit_def index_def)
qed

lemma display_name_roundtrip:
  assumes "CHR ''/'' \<notin> set (conn_id c)" and "CHR ''/'' \<notin> set n"
  shows "model_name (with_name \<lparr>model_id = conn_id c @ ''/'' @ n, model_connection = c,
                                model_name = None\<rparr>) = Some n"
  using display_name_first_segment [OF assms(1), of n] assms(2)
  by auto

text \<open>
  C3. The claim, that the display name is the id without the leading connection id and
  \<^verbatim>\<open>/\<close> also when the provider's model name holds a \<^verbatim>\<open>/\<close>, fails on the code: for
  the connection \<^verbatim>\<open>c7\<close> whose endpoint lists the model \<^verbatim>\<open>user/llama3:latest\<close>, the id is
  \<^verbatim>\<open>c7/user/llama3:latest\<close> and the display name is \<^verbatim>\<open>user\<close>, not
  \<^verbatim>\<open>user/llama3:latest\<close>.
\<close>

theorem display_name_cut_at_slash:
  "useAvailableModels instant
     (\<lambda>i u. if u = ''http://localhost:11434/api/tags''
            then Some (Some (JObj [(''models'',
                                    JArr [JObj [(''name'', JStr ''user/llama3:latest'')]])]))
            else None)
     (Some \<lparr>settings_data = Some \<lparr>data_general = Some \<lparr>general_connections = Some
        [\<lparr>conn_id = ''c7'', conn_type = ''ollama'',
          conn_data = Some \<lparr>url = Some ''http://localhost:11434''\<rparr>\<rparr>]\<rparr>\<rparr>\<rparr>) =
   [\<lparr>model_id = ''c7/user/llama3:latest'',
     model_connection = \<lparr>conn_id = ''c7'', conn_type = ''ollama'',
                         conn_data = Some \<lparr>url = Some ''http://localhost:11434''\<rparr>\<rparr>,
     model_name = Some ''user''\<rparr>]"
proof -
  let ?net = "\<lambda>u. if u = ''http://localhost:11434/api/tags''
          then Some (Some (JObj [(''models'',
                                  JArr [JObj [(''name'', JStr ''user/llama3:latest'')]])]))
          else None"
  let ?c = "\<lparr>conn_id = ''c7'', conn_type = ''ollama'',
             conn_data = Some \<lparr>url = Some ''http://localhost:11434''\<rparr>\<rparr>"
  let ?m = "\<lparr>model_id = ''c7/user/llama3:latest'', model_connection = ?c, model_name = None\<rparr>"
  have resolved: "fetchModelsByProvider ?net ?c = (Inr [?m], [''http://localhost:11434/api/tags''])"
    by (simp add: fetchModelsByProvider_def tags_url_def ollama_model_def plus_string_def)
  have pieces: "split_limit CHR ''/'' 2 ''c7/user/llama3:latest'' = [''c7'', ''user'']"
    by (simp add: split_limit_def)
  have named: "with_name ?m = ?m\<lparr>model_name := Some ''user''\<rparr>"
    by (simp add: with_name_def pieces index_def)
  show ?thesis
    by (simp add: useAvailableModels_def fetchAvailableModels_def configured_connections_def
          resolve_connection_def resolved named promise_all_def fulfilments_def)
qed

end
